theory Spec2Isabelle
  imports Complex_Main "HOL-Library.Log_Nat"
begin

section \<open>The C++ types and values the conversion is instantiated at\<close>

text \<open>
  \<^verbatim>\<open>checked_cast<Target, Source>\<close> is a template: which of its three branches is compiled
  depends on \<^verbatim>\<open>std::is_same<Target, Source>\<close> and \<^verbatim>\<open>std::is_integral<Source>\<close>. The
  model therefore carries the two types as arguments.

  An integral type is a name together with its representation: \<^verbatim>\<open>bool\<close>, or a two's
  complement signed or an unsigned integer of a number of bits. The name keeps types
  apart that share a representation (\<^verbatim>\<open>long\<close> and \<^verbatim>\<open>long long\<close>, \<^verbatim>\<open>char\<close> and
  \<^verbatim>\<open>signed char\<close>), which \<^verbatim>\<open>std::is_same\<close> tells apart. An enumeration with a fixed
  underlying type (\<^verbatim>\<open>enum class E : unsigned char\<close>) holds the values of that type but is
  not integral for \<^verbatim>\<open>std::is_integral\<close>. A floating type is a name, the number of
  bits of its significand and its largest exponent (24 and 127 for the IEEE \<^verbatim>\<open>float\<close>,
  53 and 1023 for \<^verbatim>\<open>double\<close>). Pointers keep an address; any other type is a class
  with no conversion from or to the arithmetic types, and is opaque.
\<close>

datatype ikind = Bool_rep | Signed_rep nat | Unsigned_rep nat

datatype cty =
    Integral string ikind
  | Enumeration string ikind
  | Floating string nat nat
  | Pointer string
  | Other string

text \<open>
  A value of an integral or enumeration type is the integer it denotes, a finite value of
  a floating type is the rational number it denotes, and a value of any other type is an
  opaque object (an address, an object's identity).
\<close>

datatype val = Num int | Flt rat | Obj nat

fun is_integral :: "cty \<Rightarrow> bool" where
  "is_integral (Integral _ _) = True"
| "is_integral (Enumeration _ _) = False"
| "is_integral (Floating _ _ _) = False"
| "is_integral (Pointer _) = False"
| "is_integral (Other _) = False"

fun rep_of :: "cty \<Rightarrow> ikind option" where
  "rep_of (Integral _ k) = Some k"
| "rep_of (Enumeration _ k) = Some k"
| "rep_of (Floating _ _ _) = None"
| "rep_of (Pointer _) = None"
| "rep_of (Other _) = None"

text \<open>
  The values a representation holds. A signed type of \<open>n\<close> bits holds
  \<open>- 2 ^ (n - 1) \<le> i < 2 ^ (n - 1)\<close>, written with both sides doubled so that no
  subtraction on \<open>nat\<close> is needed.
\<close>

fun in_range :: "ikind \<Rightarrow> int \<Rightarrow> bool" where
  "in_range Bool_rep i = (i = 0 \<or> i = 1)"
| "in_range (Signed_rep n) i = (- (2 ^ n) \<le> 2 * i \<and> 2 * i < 2 ^ n)"
| "in_range (Unsigned_rep n) i = (0 \<le> i \<and> i < 2 ^ n)"

subsection \<open>Integral conversion\<close>

text \<open>
  Conversion to an unsigned type of \<open>n\<close> bits is reduction modulo \<open>2 ^ n\<close>; conversion to
  a signed type is the two's complement reading of the low \<open>n\<close> bits (the rule of C++20,
  and what GCC, Clang and MSVC define for earlier standards); conversion to \<^verbatim>\<open>bool\<close>
  is the test against zero.
\<close>

definition wrap_unsigned :: "nat \<Rightarrow> int \<Rightarrow> int" where
  "wrap_unsigned n i = i mod 2 ^ n"

definition wrap_signed :: "nat \<Rightarrow> int \<Rightarrow> int" where
  "wrap_signed n i = (let m = i mod 2 ^ n in if 2 * m < 2 ^ n then m else m - 2 ^ n)"

fun convert_int :: "ikind \<Rightarrow> int \<Rightarrow> int" where
  "convert_int Bool_rep i = (if i \<noteq> 0 then 1 else 0)"
| "convert_int (Signed_rep n) i = wrap_signed n i"
| "convert_int (Unsigned_rep n) i = wrap_unsigned n i"

subsection \<open>Conversions between integers and floating types\<close>

text \<open>
  An integer converts to a floating type exactly when it has no more significant bits than
  the significand. Otherwise the standard lets the implementation choose one of the two
  neighbouring representable values; this is the IEEE default that GCC, Clang and MSVC
  use, the nearest one, and on a tie the one with an even significand. An integer beyond
  the largest finite value of the type has no defined conversion.
\<close>

definition float_max :: "nat \<Rightarrow> nat \<Rightarrow> int" where
  "float_max p emax = (2 ^ p - 1) * 2 ^ (emax + 1 - p)"

definition round_to_precision :: "nat \<Rightarrow> int \<Rightarrow> int" where
  "round_to_precision p i =
     (let n = nat (bitlen \<bar>i\<bar>) in
      if n \<le> p then i
      else (let e = n - p; q = i div 2 ^ e; r = i mod 2 ^ e; h = 2 ^ (e - 1) in
            (if r < h \<or> (r = h \<and> even q) then q else q + 1) * 2 ^ e))"

definition int_to_float :: "nat \<Rightarrow> nat \<Rightarrow> int \<Rightarrow> val option" where
  "int_to_float p emax i =
     (if \<bar>i\<bar> \<le> float_max p emax then Some (Flt (of_int (round_to_precision p i))) else None)"

text \<open>
  A floating value converts to an integer type by dropping its fraction; the behaviour is
  undefined when the result is not a value of the type. Conversion to \<^verbatim>\<open>bool\<close> is the
  test against zero.
\<close>

definition trunc :: "rat \<Rightarrow> int" where
  "trunc x = (if 0 \<le> x then \<lfloor>x\<rfloor> else \<lceil>x\<rceil>)"

fun float_to_int :: "ikind \<Rightarrow> rat \<Rightarrow> val option" where
  "float_to_int Bool_rep x = Some (Num (if x \<noteq> 0 then 1 else 0))"
| "float_to_int (Signed_rep n) x =
     (if in_range (Signed_rep n) (trunc x) then Some (Num (trunc x)) else None)"
| "float_to_int (Unsigned_rep n) x =
     (if in_range (Unsigned_rep n) (trunc x) then Some (Num (trunc x)) else None)"

subsection \<open>The cast\<close>

text \<open>
  \<^verbatim>\<open>static_cast<Target>(v)\<close> for \<open>v\<close> of type \<open>Source\<close>, on the arithmetic and enumeration
  types. \<open>None\<close> stands for a cast with no defined result: it is ill-formed (an integer
  to a pointer or to a class without conversions), or its behaviour is undefined (a
  value the target cannot hold, in a conversion from or to a floating type). From a
  floating type to a narrower floating type the value would be rounded; \<^verbatim>\<open>checked_cast\<close>
  never asks for that cast, and it is left out.
\<close>

fun static_cast :: "cty \<Rightarrow> cty \<Rightarrow> val \<Rightarrow> val option" where
  "static_cast Target Source (Num i) =
     (case rep_of Source of
        None \<Rightarrow> None
      | Some _ \<Rightarrow>
          (case Target of
             Integral _ k \<Rightarrow> Some (Num (convert_int k i))
           | Enumeration _ k \<Rightarrow> Some (Num (convert_int k i))
           | Floating _ p emax \<Rightarrow> int_to_float p emax i
           | Pointer _ \<Rightarrow> None
           | Other _ \<Rightarrow> None))"
| "static_cast Target Source (Flt x) =
     (case Source of
        Floating _ p emax \<Rightarrow>
          (case Target of
             Integral _ k \<Rightarrow> float_to_int k x
           | Enumeration _ k \<Rightarrow> float_to_int k x
           | Floating _ q fmax \<Rightarrow> if p \<le> q \<and> emax \<le> fmax then Some (Flt x) else None
           | Pointer _ \<Rightarrow> None
           | Other _ \<Rightarrow> None)
      | _ \<Rightarrow> None)"
| "static_cast Target Source (Obj a) = None"

section \<open>checked\_cast.h\<close>

subsection \<open>The failure\<close>

text \<open>
  \<^verbatim>\<open>checked_cast_throw\<close> throws a \<^verbatim>\<open>std::runtime_error\<close> whose message is a fixed text
  followed by the \<^verbatim>\<open>__PRETTY_FUNCTION__\<close> of the instantiation that failed. The thrown
  object is the \<open>Inl\<close> of a result.
\<close>

datatype error = Runtime_error (what: string)

type_synonym 'a result = "error + 'a"

definition checked_cast_throw :: "string \<Rightarrow> error" where
  "checked_cast_throw pretty = Runtime_error (''checked_cast<>() overflowed: '' @ pretty)"

subsection \<open>The conversion\<close>

text \<open>
  \<^verbatim>\<open>__PRETTY_FUNCTION__\<close> is the compiler's rendering of the instantiation; it is the
  parameter \<open>pretty\<close>, a function of the two template arguments. The three branches are
  those of the source, in its order; the comparison \<^verbatim>\<open>static_cast<Source>(r) != v\<close> is
  between two values of type \<open>Source\<close>.
\<close>

definition checked_cast ::
  "(cty \<Rightarrow> cty \<Rightarrow> string) \<Rightarrow> cty \<Rightarrow> cty \<Rightarrow> val \<Rightarrow> val result option" where
  "checked_cast pretty Target Source v =
     (if Target = Source then Some (Inr v)
      else if \<not> is_integral Source then Some (Inr v)
      else (case static_cast Target Source v of
              None \<Rightarrow> None
            | Some r \<Rightarrow>
                (case static_cast Source Target r of
                   None \<Rightarrow> None
                 | Some back \<Rightarrow>
                     if back \<noteq> v then Some (Inl (checked_cast_throw (pretty Target Source)))
                     else Some (Inr r))))"

text \<open>
  What GCC prints for \<^verbatim>\<open>__PRETTY_FUNCTION__\<close> in \<^verbatim>\<open>checked_cast\<close>; a sample value of
  the parameter for the concrete runs below.
\<close>

fun type_name :: "cty \<Rightarrow> string" where
  "type_name (Integral s _) = s"
| "type_name (Enumeration s _) = s"
| "type_name (Floating s _ _) = s"
| "type_name (Pointer s) = s"
| "type_name (Other s) = s"

definition gcc_pretty_function :: "cty \<Rightarrow> cty \<Rightarrow> string" where
  "gcc_pretty_function Target Source =
     ''constexpr auto checked_cast(Source) [with Target = '' @ type_name Target
       @ ''; Source = '' @ type_name Source @ '']''"


subsection \<open>The container\<close>

text \<open>
  \<^verbatim>\<open>checked_cast_call_container<T>\<close> holds one value \<^verbatim>\<open>_result\<close> of type \<open>T\<close>.
\<close>

record checked_cast_call_container =
  stored_type :: cty
  result :: val

text \<open>
  The return type of \<^verbatim>\<open>checked_cast\<close> is \<^verbatim>\<open>auto\<close>: \<open>Source\<close> in the first two branches,
  \<open>Target\<close> in the third. \<^verbatim>\<open>operator U()\<close> returns that value as a \<open>U\<close>, which is the
  language's implicit conversion: nothing to do between equal types, the same address
  between pointer types (pointee compatibility is not checked here), and no result in
  this model otherwise.
\<close>

definition checked_cast_type :: "cty \<Rightarrow> cty \<Rightarrow> cty" where
  "checked_cast_type Target Source =
     (if Target = Source then Source
      else if \<not> is_integral Source then Source
      else Target)"

fun implicit_conversion :: "cty \<Rightarrow> cty \<Rightarrow> val \<Rightarrow> val option" where
  "implicit_conversion U S v =
     (if U = S then Some v
      else (case U of
              Pointer _ \<Rightarrow> (case S of Pointer _ \<Rightarrow> Some v | _ \<Rightarrow> None)
            | _ \<Rightarrow> None))"

definition operator_U ::
  "(cty \<Rightarrow> cty \<Rightarrow> string) \<Rightarrow> cty \<Rightarrow> checked_cast_call_container \<Rightarrow> val result option" where
  "operator_U pretty U c =
     (case checked_cast pretty U (stored_type c) (result c) of
        None \<Rightarrow> None
      | Some (Inl e) \<Rightarrow> Some (Inl e)
      | Some (Inr r) \<Rightarrow>
          (case implicit_conversion U (checked_cast_type U (stored_type c)) r of
             None \<Rightarrow> None
           | Some u \<Rightarrow> Some (Inr u)))"

text \<open>
  \<^verbatim>\<open>operator==\<close> returns \<^verbatim>\<open>_result == other\<close>, the comparison the language (or the type
  of \<open>other\<close>) provides for the two operand types; it is the parameter \<open>eq\<close>.
  \<^verbatim>\<open>operator!=\<close> negates \<^verbatim>\<open>operator==\<close>.
\<close>

definition operator_eq :: "(val \<Rightarrow> 'u \<Rightarrow> bool) \<Rightarrow> checked_cast_call_container \<Rightarrow> 'u \<Rightarrow> bool" where
  "operator_eq eq c other = eq (result c) other"

definition operator_ne :: "(val \<Rightarrow> 'u \<Rightarrow> bool) \<Rightarrow> checked_cast_call_container \<Rightarrow> 'u \<Rightarrow> bool" where
  "operator_ne eq c other = (\<not> operator_eq eq c other)"

subsection \<open>The wrapped call\<close>

text \<open>
  A callee has declared parameter types, a return type and a body, which may change the
  program's state \<open>'s\<close>. Entering the body is counted in \<open>calls\<close>, so that the number of
  invocations a wrapped call makes can be read off the result.
\<close>

record 's callee =
  params :: "cty list"
  ret :: cty
  body :: "val list \<Rightarrow> 's \<Rightarrow> val \<times> 's"

record 's world =
  calls :: nat
  state :: 's

definition invoke :: "'s callee \<Rightarrow> val list \<Rightarrow> 's world \<Rightarrow> val \<times> 's world" where
  "invoke fn vs w =
     (case body fn vs (state w) of (r, s') \<Rightarrow> (r, \<lparr>calls = Suc (calls w), state = s'\<rparr>))"

text \<open>
  Binding the containers to the parameters converts each with \<^verbatim>\<open>operator U()\<close> at the
  parameter's type, before the body is entered. A call with the wrong number of arguments
  or with an argument that has no conversion does not compile (\<open>None\<close>). C++ leaves the
  order of the conversions unspecified; here the leftmost failure is the one reported.
\<close>

fun bind_args ::
  "(cty \<Rightarrow> cty \<Rightarrow> string) \<Rightarrow> cty list \<Rightarrow> checked_cast_call_container list \<Rightarrow> val list result option" where
  "bind_args pretty [] [] = Some (Inr [])"
| "bind_args pretty (U # Us) (c # cs) =
     (case operator_U pretty U c of
        None \<Rightarrow> None
      | Some x \<Rightarrow>
          (case bind_args pretty Us cs of
             None \<Rightarrow> None
           | Some xs \<Rightarrow>
               (case x of
                  Inl e \<Rightarrow> Some (Inl e)
                | Inr u \<Rightarrow> (case xs of Inl e \<Rightarrow> Some (Inl e) | Inr us \<Rightarrow> Some (Inr (u # us))))))"
| "bind_args pretty [] (c # cs) = None"
| "bind_args pretty (U # Us) [] = None"

definition wrap_args :: "(cty \<times> val) list \<Rightarrow> checked_cast_call_container list" where
  "wrap_args args = map (\<lambda>(t, v). \<lparr>stored_type = t, result = v\<rparr>) args"

text \<open>
  Both overloads of \<^verbatim>\<open>checked_cast_call\<close> (the callee as a template argument or as a
  function argument) have the same body:
  \<^verbatim>\<open>checked_cast_call_container(fn(checked_cast_call_container(args)...))\<close>.
  Each argument comes with its deduced type.
\<close>

definition checked_cast_call ::
  "(cty \<Rightarrow> cty \<Rightarrow> string) \<Rightarrow> 's callee \<Rightarrow> (cty \<times> val) list \<Rightarrow> 's world
     \<Rightarrow> (checked_cast_call_container result \<times> 's world) option" where
  "checked_cast_call pretty fn args w =
     (case bind_args pretty (params fn) (wrap_args args) of
        None \<Rightarrow> None
      | Some (Inl e) \<Rightarrow> Some (Inl e, w)
      | Some (Inr vs) \<Rightarrow>
          (case invoke fn vs w of
             (r, w') \<Rightarrow> Some (Inr \<lparr>stored_type = ret fn, result = r\<rparr>, w')))"

section \<open>main.cpp\<close>

text \<open>
  The types of the demonstration, as on x86-64 Linux with GCC: \<^verbatim>\<open>char\<close> is one signed
  byte, \<^verbatim>\<open>size_t\<close> and \<^verbatim>\<open>ssize_t\<close> are the 64-bit \<^verbatim>\<open>long unsigned int\<close> and
  \<^verbatim>\<open>long int\<close>.
\<close>

definition char_t :: cty where "char_t = Integral ''char'' (Signed_rep 8)"
definition size_t :: cty where "size_t = Integral ''long unsigned int'' (Unsigned_rep 64)"
definition ssize_t :: cty where "ssize_t = Integral ''long int'' (Signed_rep 64)"
definition const_void_ptr :: cty where "const_void_ptr = Pointer ''const void*''"
definition const_char_ptr :: cty where "const_char_ptr = Pointer ''const char*''"
definition FILE_ptr :: cty where "FILE_ptr = Pointer ''FILE*''"

text \<open>
  \<^verbatim>\<open>my_write\<close> and \<^verbatim>\<open>my_write_ok\<close> return their \<^verbatim>\<open>size\<close> argument and touch nothing;
  \<^verbatim>\<open>my_write_ok\<close> returns a \<^verbatim>\<open>size_t\<close> as \<^verbatim>\<open>ssize_t\<close>, an unchecked integral
  conversion. The last equation of each body is never reached: binding gives the body
  exactly its three parameters.
\<close>

fun my_write_body :: "val list \<Rightarrow> 's \<Rightarrow> val \<times> 's" where
  "my_write_body [buf, sz, file] s = (sz, s)"
| "my_write_body _ s = (Num 0, s)"

definition my_write :: "'s callee" where
  "my_write = \<lparr>params = [const_void_ptr, char_t, FILE_ptr], ret = char_t, body = my_write_body\<rparr>"

fun my_write_ok_body :: "val list \<Rightarrow> 's \<Rightarrow> val \<times> 's" where
  "my_write_ok_body [buf, Num sz, file] s = (Num (convert_int (Signed_rep 64) sz), s)"
| "my_write_ok_body _ s = (Num 0, s)"

definition my_write_ok :: "'s callee" where
  "my_write_ok =
     \<lparr>params = [const_void_ptr, size_t, FILE_ptr], ret = ssize_t, body = my_write_ok_body\<rparr>"

text \<open>
  \<^verbatim>\<open>first_colon\<close> is \<^verbatim>\<open>s.substr(0, s.find(':'))\<close>: the text before the first colon, or
  all of \<open>s\<close> when it has none (\<^verbatim>\<open>find\<close> then returns \<^verbatim>\<open>npos\<close>).
\<close>

fun find_char :: "char \<Rightarrow> string \<Rightarrow> nat option" where
  "find_char c [] = None"
| "find_char c (x # xs) = (if x = c then Some 0 else map_option Suc (find_char c xs))"

definition first_colon :: "string \<Rightarrow> string" where
  "first_colon s = (case find_char CHR '':'' s of None \<Rightarrow> s | Some n \<Rightarrow> take n s)"

section \<open>Integral conversions and ranges\<close>

lemma wrap_unsigned_in_range: "0 \<le> wrap_unsigned n i \<and> wrap_unsigned n i < 2 ^ n"
  by (simp add: wrap_unsigned_def)

lemma wrap_signed_in_range: "- (2 ^ n) \<le> 2 * wrap_signed n i \<and> 2 * wrap_signed n i < 2 ^ n"
proof -
  define m where "m = i mod 2 ^ n"
  have m: "0 \<le> m" "m < 2 ^ n" by (simp_all add: m_def)
  have w: "wrap_signed n i = (if 2 * m < 2 ^ n then m else m - 2 ^ n)"
    by (simp add: wrap_signed_def m_def)
  from m show ?thesis unfolding w by (cases "2 * m < 2 ^ n") simp_all
qed

lemma convert_int_in_range: "in_range k (convert_int k i)"
  by (cases k) (simp_all add: wrap_unsigned_in_range wrap_signed_in_range)

lemma wrap_unsigned_id: "0 \<le> i \<Longrightarrow> i < 2 ^ n \<Longrightarrow> wrap_unsigned n i = i"
  by (simp add: wrap_unsigned_def)

lemma mod_neg_shift:
  fixes i m :: int
  assumes "- m \<le> i" and "i < 0"
  shows "i mod m = i + m"
proof -
  from assms have "0 \<le> i + m" and "i + m < m" by simp_all
  then have "(i + m) mod m = i + m" by (rule mod_pos_pos_trivial)
  then show ?thesis by simp
qed

lemma wrap_signed_id: "- (2 ^ n) \<le> 2 * i \<Longrightarrow> 2 * i < 2 ^ n \<Longrightarrow> wrap_signed n i = i"
proof (cases "0 \<le> i")
  case True
  assume "2 * i < 2 ^ n"
  with True have "i < 2 ^ n" by simp
  with True have "i mod 2 ^ n = i" by simp
  with \<open>2 * i < 2 ^ n\<close> show ?thesis by (simp add: wrap_signed_def)
next
  case False
  assume lo: "- (2 ^ n) \<le> 2 * i"
  from False lo have "- (2 ^ n) \<le> i" by linarith
  with False have "i mod 2 ^ n = i + 2 ^ n" by (simp add: mod_neg_shift)
  with lo show ?thesis by (simp add: wrap_signed_def)
qed

lemma convert_int_id: "in_range k i \<Longrightarrow> convert_int k i = i"
  by (cases k) (auto simp: wrap_unsigned_id wrap_signed_id)

lemma wrap_signed_add_power:
  assumes "n \<le> m"
  shows "wrap_signed n (i + 2 ^ m) = wrap_signed n i"
proof -
  from assms have "(2::int) ^ n dvd 2 ^ m" by (rule le_imp_power_dvd)
  then have "(i + 2 ^ m) mod 2 ^ n = i mod 2 ^ n" by (metis mod_add_self2 dvd_mult_div_cancel mod_mult_self2)
  then show ?thesis by (simp add: wrap_signed_def)
qed

section \<open>The branches of the conversion\<close>



lemma checked_cast_integral:
  assumes "Integral tn kT \<noteq> Integral sn kS"
  shows "checked_cast pretty (Integral tn kT) (Integral sn kS) (Num i) =
     (if convert_int kS (convert_int kT i) \<noteq> i
      then Some (Inl (checked_cast_throw (pretty (Integral tn kT) (Integral sn kS))))
      else Some (Inr (Num (convert_int kT i))))"
  using assms by (auto simp: checked_cast_def)

lemma checked_cast_error:
  "checked_cast pretty Target Source v = Some (Inl e) \<Longrightarrow> e = checked_cast_throw (pretty Target Source)"
  by (auto simp: checked_cast_def split: if_splits option.splits)

lemma operator_U_error:
  "operator_U pretty U c = Some (Inl e) \<Longrightarrow> e = checked_cast_throw (pretty U (stored_type c))"
  by (auto simp: operator_U_def split: option.splits sum.splits dest: checked_cast_error)

lemma what_checked_cast_throw:
  "what (checked_cast_throw d) = ''checked_cast<>() overflowed'' @ '': '' @ d"
  by (simp add: checked_cast_throw_def)

lemma first_colon_checked_cast_throw:
  "first_colon (what (checked_cast_throw d)) = ''checked_cast<>() overflowed''"
  by (simp add: checked_cast_throw_def first_colon_def)

section \<open>Binding arguments\<close>

lemma bind_args_error:
  "bind_args pretty Us cs = Some (Inl e) \<Longrightarrow>
     \<exists>(U, c) \<in> set (zip Us cs). operator_U pretty U c = Some (Inl e)"
  by (induction pretty Us cs rule: bind_args.induct)
     (auto split: option.splits sum.splits)

lemma bind_args_values:
  "bind_args pretty Us cs = Some (Inr vs) \<Longrightarrow>
     \<forall>(U, c) \<in> set (zip Us cs). \<exists>u. operator_U pretty U c = Some (Inr u)"
  by (induction pretty Us cs arbitrary: vs rule: bind_args.induct)
     (auto split: option.splits sum.splits)

lemma bind_args_all:
  "length Us = length cs \<Longrightarrow>
   \<forall>(U, c) \<in> set (zip Us cs). \<exists>u. operator_U pretty U c = Some (Inr u) \<Longrightarrow>
   \<exists>vs. bind_args pretty Us cs = Some (Inr vs)"
  by (induction Us cs rule: list_induct2) auto

lemma bind_args_failure:
  assumes "bind_args pretty Us cs = Some x"
    and "\<exists>(U, c) \<in> set (zip Us cs). \<exists>e. operator_U pretty U c = Some (Inl e)"
  shows "\<exists>e. x = Inl e"
proof (cases x)
  case (Inl e)
  then show ?thesis by blast
next
  case (Inr vs)
  with assms(1) have "\<forall>(U, c) \<in> set (zip Us cs). \<exists>u. operator_U pretty U c = Some (Inr u)"
    by (simp add: bind_args_values)
  with assms(2) show ?thesis by fastforce
qed

lemma calls_invoke: "invoke fn vs w = (r, w') \<Longrightarrow> calls w' = Suc (calls w) \<and> body fn vs (state w) = (r, state w')"
  by (auto simp: invoke_def split: prod.splits)

section \<open>The runs of main.cpp\<close>

text \<open>
  The blocks of \<^verbatim>\<open>main\<close>, on the types above. With 100 bytes both callees return and the
  result converts to \<^verbatim>\<open>char\<close>. With 142 bytes \<^verbatim>\<open>my_write_ok\<close> runs, and the conversion
  of its result to \<^verbatim>\<open>char\<close> raises afterwards.
\<close>

lemma main_should_pass:
  "checked_cast_call gcc_pretty_function my_write_ok
       [(const_char_ptr, Obj a), (size_t, Num 100), (FILE_ptr, Obj f)] w =
     Some (Inr \<lparr>stored_type = ssize_t, result = Num 100\<rparr>, \<lparr>calls = calls w + 1, state = state w\<rparr>) \<and>
   operator_U gcc_pretty_function char_t \<lparr>stored_type = ssize_t, result = Num 100\<rparr> =
     Some (Inr (Num 100))"
  by (simp add: checked_cast_call_def my_write_ok_def wrap_args_def operator_U_def invoke_def
        checked_cast_def checked_cast_type_def const_char_ptr_def const_void_ptr_def
        size_t_def ssize_t_def char_t_def FILE_ptr_def wrap_signed_def wrap_unsigned_def)

lemma main_return_overflow:
  "checked_cast_call gcc_pretty_function my_write_ok
       [(const_char_ptr, Obj a), (size_t, Num 142), (FILE_ptr, Obj f)] w =
     Some (Inr \<lparr>stored_type = ssize_t, result = Num 142\<rparr>, \<lparr>calls = calls w + 1, state = state w\<rparr>) \<and>
   operator_U gcc_pretty_function char_t \<lparr>stored_type = ssize_t, result = Num 142\<rparr> =
     Some (Inl (checked_cast_throw (gcc_pretty_function char_t ssize_t)))"
  by (simp add: checked_cast_call_def my_write_ok_def wrap_args_def operator_U_def invoke_def
        checked_cast_def checked_cast_type_def const_char_ptr_def const_void_ptr_def
        size_t_def ssize_t_def char_t_def FILE_ptr_def wrap_signed_def wrap_unsigned_def)

section \<open>Properties of the checked conversion\<close>

text \<open>
  Claim C1 (round-trip law): for every value \<open>v\<close> of an integral \<open>Source\<close> and every
  integral \<open>Target\<close>, either \<^verbatim>\<open>checked_cast<Target>(v)\<close> raises, or it returns some \<open>r\<close>
  and \<^verbatim>\<open>checked_cast<Source>(r)\<close> raises or returns exactly \<open>v\<close>: a different value never
  comes back. The statement is for every integer \<open>i\<close>, the values of \<open>Source\<close> among them.
\<close>

theorem round_trip_law:
  "(\<exists>e. checked_cast pretty (Integral tn kT) (Integral sn kS) (Num i) = Some (Inl e)) \<or>
   (\<exists>r. checked_cast pretty (Integral tn kT) (Integral sn kS) (Num i) = Some (Inr r) \<and>
        ((\<exists>e. checked_cast pretty (Integral sn kS) (Integral tn kT) r = Some (Inl e)) \<or>
         checked_cast pretty (Integral sn kS) (Integral tn kT) r = Some (Inr (Num i))))"
proof (cases "Integral tn kT = Integral sn kS")
  case True
  then show ?thesis by (simp add: checked_cast_def)
next
  case False
  then have ne: "Integral sn kS \<noteq> Integral tn kT" by blast
  show ?thesis
  proof (cases "convert_int kS (convert_int kT i) = i")
    case True
    then show ?thesis
      by (simp add: checked_cast_integral [OF False] checked_cast_integral [OF ne])
  next
    case False
    then show ?thesis
      by (simp add: checked_cast_integral [OF \<open>Integral tn kT \<noteq> Integral sn kS\<close>])
  qed
qed

theorem round_trip_law_witness:
  "checked_cast gcc_pretty_function char_t size_t (Num 100) = Some (Inr (Num 100)) \<and>
   checked_cast gcc_pretty_function size_t char_t (Num 100) = Some (Inr (Num 100))"
  using round_trip_law [of gcc_pretty_function "''char''" "Signed_rep 8"
      "''long unsigned int''" "Unsigned_rep 64" 100]
  by (simp add: checked_cast_def char_t_def size_t_def wrap_signed_def wrap_unsigned_def)

text \<open>
  Claim C2 (sign-loss detection), as stated: every negative value of a signed \<open>Source\<close>
  converted to any unsigned \<open>Target\<close> raises. It fails when \<open>Target\<close> is at least as wide
  as \<open>Source\<close>: \<^verbatim>\<open>checked_cast<unsigned int>(-1)\<close> on a 32-bit \<^verbatim>\<open>int\<close> returns
  \<open>4294967295\<close>, because that value converts back to \<open>-1\<close>.
\<close>

theorem sign_loss_counterexample:
  "(- 1 :: int) < 0 \<and> in_range (Signed_rep 32) (- 1) \<and>
   checked_cast gcc_pretty_function (Integral ''unsigned int'' (Unsigned_rep 32))
     (Integral ''int'' (Signed_rep 32)) (Num (- 1)) = Some (Inr (Num 4294967295))"
  by (simp add: checked_cast_def wrap_signed_def wrap_unsigned_def)

text \<open>
  Claim C2, amended: a negative value of a signed \<open>Source\<close> of \<open>n\<close> bits converted to an
  unsigned \<open>Target\<close> of \<open>m\<close> bits raises exactly when \<open>m < n\<close>; when \<open>Target\<close> is at least
  as wide as \<open>Source\<close> the conversion returns \<open>i + 2 ^ m\<close> without an error.
\<close>

theorem sign_loss_detection:
  assumes "i < 0" and "in_range (Signed_rep n) i"
  shows "checked_cast pretty (Integral tn (Unsigned_rep m)) (Integral sn (Signed_rep n)) (Num i) =
           (if m < n
            then Some (Inl (checked_cast_throw
                   (pretty (Integral tn (Unsigned_rep m)) (Integral sn (Signed_rep n)))))
            else Some (Inr (Num (i + 2 ^ m))))"
proof -
  have ne: "Integral tn (Unsigned_rep m) \<noteq> Integral sn (Signed_rep n)" by simp
  note cc = checked_cast_integral [OF ne, of pretty i]
  show ?thesis
  proof (cases "m < n")
    case True
    define u where "u = wrap_unsigned m i"
    have u: "0 \<le> u" "u < 2 ^ m" using wrap_unsigned_in_range [of m i] by (simp_all add: u_def)
    from True have "Suc m \<le> n" by simp
    then have "(2::int) ^ Suc m \<le> 2 ^ n" by (rule power_increasing) simp
    with u have "- (2 ^ n) \<le> 2 * u" "2 * u < 2 ^ n" by simp_all
    then have "wrap_signed n u = u" by (rule wrap_signed_id)
    with u(1) assms(1) have "wrap_signed n u \<noteq> i" by simp
    with True show ?thesis unfolding cc by (simp add: u_def)
  next
    case False
    then have nm: "n \<le> m" by simp
    then have "(2::int) ^ n \<le> 2 ^ m" by (rule power_increasing) simp
    moreover from assms(2) have "- (2 ^ n) \<le> 2 * i" by simp
    ultimately have "- (2 ^ m) \<le> i" using assms(1) by linarith
    with assms(1) have u: "wrap_unsigned m i = i + 2 ^ m"
      by (simp add: wrap_unsigned_def mod_neg_shift)
    from assms(2) have "wrap_signed n i = i" by (simp add: wrap_signed_id)
    with nm have "wrap_signed n (i + 2 ^ m) = i" by (simp add: wrap_signed_add_power)
    with False show ?thesis unfolding cc by (simp add: u)
  qed
qed

theorem sign_loss_detection_witness:
  "(- 1 :: int) < 0 \<and> in_range (Signed_rep 32) (- 1) \<and>
   checked_cast gcc_pretty_function (Integral ''unsigned char'' (Unsigned_rep 8))
     (Integral ''int'' (Signed_rep 32)) (Num (- 1)) =
     Some (Inl (checked_cast_throw (gcc_pretty_function
       (Integral ''unsigned char'' (Unsigned_rep 8)) (Integral ''int'' (Signed_rep 32)))))"
proof -
  have neg: "(- 1 :: int) < 0" by simp
  have rng: "in_range (Signed_rep 32) (- 1)" by simp
  from sign_loss_detection [OF neg rng, of gcc_pretty_function "''unsigned char''" 8 "''int''"]
  show ?thesis using neg rng by simp
qed

text \<open>
  The same for \<^verbatim>\<open>bool\<close>, which \<^verbatim>\<open>std::is_unsigned\<close> counts as unsigned: a negative value
  becomes \<^verbatim>\<open>true\<close>, which converts back to \<open>1\<close>.
\<close>

lemma sign_loss_bool:
  assumes "i < 0" and "2 \<le> n"
  shows "checked_cast pretty (Integral tn Bool_rep) (Integral sn (Signed_rep n)) (Num i) =
           Some (Inl (checked_cast_throw (pretty (Integral tn Bool_rep) (Integral sn (Signed_rep n)))))"
proof -
  have ne: "Integral tn Bool_rep \<noteq> Integral sn (Signed_rep n)" by simp
  from assms(2) have "(2::int) ^ 2 \<le> 2 ^ n" by (rule power_increasing) simp
  then have "wrap_signed n 1 = 1" by (intro wrap_signed_id) simp_all
  with assms(1) show ?thesis by (simp add: checked_cast_integral [OF ne])
qed

text \<open>
  Claim C3 (magnitude-overflow detection), as stated: every \<open>Source\<close> value outside the
  range of \<open>Target\<close> raises. It fails where the wrapped result converts back onto the
  original: \<^verbatim>\<open>checked_cast<signed char>(4294967295u)\<close> returns \<open>-1\<close>.
\<close>

theorem magnitude_overflow_counterexample:
  "in_range (Unsigned_rep 32) 4294967295 \<and> \<not> in_range (Signed_rep 8) 4294967295 \<and>
   checked_cast gcc_pretty_function (Integral ''signed char'' (Signed_rep 8))
     (Integral ''unsigned int'' (Unsigned_rep 32)) (Num 4294967295) = Some (Inr (Num (- 1)))"
  by (simp add: checked_cast_def wrap_signed_def wrap_unsigned_def)

text \<open>
  Claim C3, amended: a \<open>Source\<close> value outside the range of \<open>Target\<close> raises whenever every
  value of \<open>Target\<close> is representable in \<open>Source\<close> (both signed, both unsigned, or an
  unsigned \<open>Target\<close> narrower than a signed \<open>Source\<close>). From an unsigned \<open>Source\<close> of \<open>n\<close>
  bits to a signed \<open>Target\<close> of \<open>m \<le> n\<close> bits it raises exactly below
  \<open>2 ^ n - 2 ^ (m - 1)\<close>; the values from there on are returned as \<open>i - 2 ^ n\<close> without
  an error. (Negative values into an unsigned \<open>Target\<close> are the subject of C2.)
\<close>

theorem magnitude_overflow_detection:
  assumes "in_range kS i" and "\<not> in_range kT i"
  shows "((\<forall>x. in_range kT x \<longrightarrow> in_range kS x) \<longrightarrow>
            checked_cast pretty (Integral tn kT) (Integral sn kS) (Num i) =
              Some (Inl (checked_cast_throw (pretty (Integral tn kT) (Integral sn kS))))) \<and>
         (\<forall>n m. kS = Unsigned_rep n \<and> kT = Signed_rep m \<and> m \<le> n \<longrightarrow>
            checked_cast pretty (Integral tn kT) (Integral sn kS) (Num i) =
              (if 2 * i < 2 * 2 ^ n - 2 ^ m
               then Some (Inl (checked_cast_throw (pretty (Integral tn kT) (Integral sn kS))))
               else Some (Inr (Num (i - 2 ^ n)))))"
proof (intro conjI allI impI)
  from assms have ne: "Integral tn kT \<noteq> Integral sn kS" by auto
  note cc = checked_cast_integral [OF ne, of pretty i]
  have r: "in_range kT (convert_int kT i)" by (rule convert_int_in_range)
  {
    assume "\<forall>x. in_range kT x \<longrightarrow> in_range kS x"
    with r have "in_range kS (convert_int kT i)" by blast
    then have rt: "convert_int kS (convert_int kT i) = convert_int kT i" by (rule convert_int_id)
    from r assms(2) have "convert_int kT i \<noteq> i" by auto
    with rt show "checked_cast pretty (Integral tn kT) (Integral sn kS) (Num i) =
              Some (Inl (checked_cast_throw (pretty (Integral tn kT) (Integral sn kS))))"
      by (simp add: cc)
  }
  fix n m
  assume k: "kS = Unsigned_rep n \<and> kT = Signed_rep m \<and> m \<le> n"
  then have mn: "(2::int) ^ m \<le> 2 ^ n" by (simp add: power_increasing)
  from k assms have i: "0 \<le> i" "i < 2 ^ n" "2 ^ m \<le> 2 * i" by auto
  define s where "s = wrap_signed m i"
  have s: "- (2 ^ m) \<le> 2 * s" "2 * s < 2 ^ m"
    using wrap_signed_in_range [of m i] by (simp_all add: s_def)
  show "checked_cast pretty (Integral tn kT) (Integral sn kS) (Num i) =
              (if 2 * i < 2 * 2 ^ n - 2 ^ m
               then Some (Inl (checked_cast_throw (pretty (Integral tn kT) (Integral sn kS))))
               else Some (Inr (Num (i - 2 ^ n))))"
  proof (cases "2 * i < 2 * 2 ^ n - 2 ^ m")
    case True
    have "wrap_unsigned n s \<noteq> i"
    proof (cases "0 \<le> s")
      case True
      from True s mn have "s < 2 ^ n" by linarith
      with True have "wrap_unsigned n s = s" by (rule wrap_unsigned_id)
      with s i show ?thesis by linarith
    next
      case False
      from False s mn have "- (2 ^ n) \<le> s" "s < 0" by linarith+
      then have "wrap_unsigned n s = s + 2 ^ n"
        by (simp add: wrap_unsigned_def mod_neg_shift)
      with s \<open>2 * i < 2 * 2 ^ n - 2 ^ m\<close> show ?thesis by linarith
    qed
    with True k show ?thesis unfolding cc by (simp add: s_def)
  next
    case False
    have "(0::int) < 2 ^ m" by simp
    with False i have "- (2 ^ m) \<le> 2 * (i - 2 ^ n)" "2 * (i - 2 ^ n) < 2 ^ m"
      by (simp_all add: algebra_simps)
    then have "wrap_signed m (i - 2 ^ n) = i - 2 ^ n" by (rule wrap_signed_id)
    moreover from k have "wrap_signed m ((i - 2 ^ n) + 2 ^ n) = wrap_signed m (i - 2 ^ n)"
      by (intro wrap_signed_add_power) simp
    ultimately have sv: "s = i - 2 ^ n" by (simp add: s_def)
    from i have "- (2 ^ n) \<le> i - 2 ^ n" "i - 2 ^ n < 0" by linarith+
    then have "wrap_unsigned n (i - 2 ^ n) = i"
      by (simp add: wrap_unsigned_def mod_neg_shift)
    with False k sv show ?thesis unfolding cc by (simp add: s_def [symmetric])
  qed
qed

theorem magnitude_overflow_detection_witness:
  "in_range (Unsigned_rep 64) 142 \<and> \<not> in_range (Signed_rep 8) 142 \<and>
   checked_cast gcc_pretty_function char_t size_t (Num 142) =
     Some (Inl (checked_cast_throw (gcc_pretty_function char_t size_t))) \<and>
   in_range (Signed_rep 64) 256 \<and> \<not> in_range (Signed_rep 8) 256 \<and>
   checked_cast gcc_pretty_function char_t ssize_t (Num 256) =
     Some (Inl (checked_cast_throw (gcc_pretty_function char_t ssize_t)))"
proof -
  have a: "in_range (Unsigned_rep 64) 142" and b: "\<not> in_range (Signed_rep 8) 142" by simp_all
  have c: "in_range (Signed_rep 64) 256" and d: "\<not> in_range (Signed_rep 8) 256" by simp_all
  have sub: "\<forall>x. in_range (Signed_rep 8) x \<longrightarrow> in_range (Signed_rep 64) x" by simp
  from magnitude_overflow_detection [OF a b, of gcc_pretty_function "''char''" "''long unsigned int''"]
  have "checked_cast gcc_pretty_function char_t size_t (Num 142) =
     Some (Inl (checked_cast_throw (gcc_pretty_function char_t size_t)))"
    by (simp add: char_t_def size_t_def)
  moreover
  from magnitude_overflow_detection [OF c d, of gcc_pretty_function "''char''" "''long int''"] sub
  have "checked_cast gcc_pretty_function char_t ssize_t (Num 256) =
     Some (Inl (checked_cast_throw (gcc_pretty_function char_t ssize_t)))"
    unfolding char_t_def ssize_t_def by blast
  ultimately show ?thesis using a b c d by blast
qed




text \<open>
  Claim C5 (identity law): for every type \<open>T\<close> and every value \<open>v\<close>, the same-type
  conversion \<^verbatim>\<open>checked_cast<T>(v)\<close> succeeds and returns \<open>v\<close> unchanged; it never raises.
\<close>

theorem identity_law: "checked_cast pretty T T v = Some (Inr v)"
  by (simp add: checked_cast_def)

theorem identity_law_witness:
  "checked_cast gcc_pretty_function (Integral ''int'' (Signed_rep 32))
     (Integral ''int'' (Signed_rep 32)) (Num (- 7)) = Some (Inr (Num (- 7)))"
  by (rule identity_law)

text \<open>
  Claim C6 (pass-through law): a value whose \<open>Source\<close> type is not integral (a pointer, a
  floating type, an enumeration, a class) is returned unchanged for every requested
  \<open>Target\<close>, and no error is raised.
\<close>

theorem pass_through_law:
  "\<not> is_integral Source \<Longrightarrow> checked_cast pretty Target Source v = Some (Inr v)"
  by (simp add: checked_cast_def)

theorem pass_through_law_witness:
  "\<not> is_integral const_char_ptr \<and>
   checked_cast gcc_pretty_function char_t const_char_ptr (Obj 4096) = Some (Inr (Obj 4096))"
proof -
  have h: "\<not> is_integral const_char_ptr" by (simp add: const_char_ptr_def)
  from pass_through_law [OF h] h show ?thesis by blast
qed

text \<open>
  Claim C7 (failure signal): every error raised by \<^verbatim>\<open>checked_cast\<close>, by the container's
  conversion operator or by the input side of \<^verbatim>\<open>checked_cast_call\<close> is the one
  \<^verbatim>\<open>std::runtime_error\<close> of \<^verbatim>\<open>checked_cast_throw\<close>: its message is
  \<^verbatim>\<open>checked_cast<>() overflowed\<close>, then \<^verbatim>\<open>: \<close>, then the descriptor of the failing
  instantiation, so \<^verbatim>\<open>first_colon\<close> of the message is \<^verbatim>\<open>checked_cast<>() overflowed\<close>
  whatever the descriptor contains.
\<close>

theorem failure_signal:
  "(checked_cast pretty Target Source v = Some (Inl e) \<longrightarrow>
      what e = ''checked_cast<>() overflowed'' @ '': '' @ pretty Target Source \<and>
      first_colon (what e) = ''checked_cast<>() overflowed'') \<and>
   (operator_U pretty U c = Some (Inl e) \<longrightarrow>
      what e = ''checked_cast<>() overflowed'' @ '': '' @ pretty U (stored_type c) \<and>
      first_colon (what e) = ''checked_cast<>() overflowed'') \<and>
   (checked_cast_call pretty fn args w = Some (Inl e, w') \<longrightarrow>
      (\<exists>T S. what e = ''checked_cast<>() overflowed'' @ '': '' @ pretty T S) \<and>
      first_colon (what e) = ''checked_cast<>() overflowed'')"
proof (intro conjI impI)
  assume "checked_cast pretty Target Source v = Some (Inl e)"
  then have "e = checked_cast_throw (pretty Target Source)" by (rule checked_cast_error)
  then show "what e = ''checked_cast<>() overflowed'' @ '': '' @ pretty Target Source"
    and "first_colon (what e) = ''checked_cast<>() overflowed''"
    by (simp only: what_checked_cast_throw, simp only: first_colon_checked_cast_throw)
next
  assume "operator_U pretty U c = Some (Inl e)"
  then have "e = checked_cast_throw (pretty U (stored_type c))" by (rule operator_U_error)
  then show "what e = ''checked_cast<>() overflowed'' @ '': '' @ pretty U (stored_type c)"
    and "first_colon (what e) = ''checked_cast<>() overflowed''"
    by (simp only: what_checked_cast_throw, simp only: first_colon_checked_cast_throw)
next
  assume "checked_cast_call pretty fn args w = Some (Inl e, w')"
  then have "bind_args pretty (params fn) (wrap_args args) = Some (Inl e)"
    by (auto simp: checked_cast_call_def split: option.splits sum.splits prod.splits)
  then obtain U c where "operator_U pretty U c = Some (Inl e)"
    by (blast dest: bind_args_error)
  then have e: "e = checked_cast_throw (pretty U (stored_type c))" by (rule operator_U_error)
  then have "what e = ''checked_cast<>() overflowed'' @ '': '' @ pretty U (stored_type c)"
    by (simp only: what_checked_cast_throw)
  then show "\<exists>T S. what e = ''checked_cast<>() overflowed'' @ '': '' @ pretty T S"
    by blast
  from e show "first_colon (what e) = ''checked_cast<>() overflowed''"
    by (simp only: first_colon_checked_cast_throw)
qed

theorem failure_signal_witness:
  "checked_cast gcc_pretty_function char_t size_t (Num 142) =
     Some (Inl (checked_cast_throw (gcc_pretty_function char_t size_t))) \<and>
   what (checked_cast_throw (gcc_pretty_function char_t size_t)) =
     ''checked_cast<>() overflowed: constexpr auto checked_cast(Source) [with Target = char; Source = long unsigned int]'' \<and>
   first_colon (what (checked_cast_throw (gcc_pretty_function char_t size_t))) =
     ''checked_cast<>() overflowed''"
proof -
  have h: "checked_cast gcc_pretty_function char_t size_t (Num 142) =
     Some (Inl (checked_cast_throw (gcc_pretty_function char_t size_t)))"
    by (simp add: checked_cast_def char_t_def size_t_def wrap_signed_def wrap_unsigned_def)
  from failure_signal [of gcc_pretty_function char_t size_t "Num 142"
      "checked_cast_throw (gcc_pretty_function char_t size_t)"] h
  have "what (checked_cast_throw (gcc_pretty_function char_t size_t)) =
      ''checked_cast<>() overflowed'' @ '': '' @ gcc_pretty_function char_t size_t"
    and fc: "first_colon (what (checked_cast_throw (gcc_pretty_function char_t size_t))) =
     ''checked_cast<>() overflowed''"
    by blast+
  then have "what (checked_cast_throw (gcc_pretty_function char_t size_t)) =
     ''checked_cast<>() overflowed: constexpr auto checked_cast(Source) [with Target = char; Source = long unsigned int]''"
    by (simp add: gcc_pretty_function_def char_t_def size_t_def)
  with h fc show ?thesis by blast
qed

section \<open>Properties of the wrapped call and of the container\<close>

text \<open>
  Claim C8 (invocation discipline): a wrapped call enters the callee at most once. When
  an input conversion fails, the error is the result, and the world (the invocation count
  and the state) is the one before the call: the callee has not run. When the arguments
  match the parameters in number and every input conversion succeeds, the callee runs
  exactly once, on the converted values. In particular \<^verbatim>\<open>my_write\<close>, whose \<^verbatim>\<open>size\<close>
  parameter is one signed byte, called with a \<^verbatim>\<open>size_t\<close> of 142 raises and leaves the
  world untouched.
\<close>

theorem invocation_discipline:
  "(checked_cast_call pretty fn args w = Some (out, w') \<longrightarrow>
      calls w' \<le> calls w + 1 \<and>
      ((\<exists>(U, c) \<in> set (zip (params fn) (wrap_args args)).
           \<exists>e. operator_U pretty U c = Some (Inl e)) \<longrightarrow>
         (\<exists>e. out = Inl e) \<and> w' = w)) \<and>
   (length (params fn) = length args \<and>
    (\<forall>(U, c) \<in> set (zip (params fn) (wrap_args args)).
        \<exists>u. operator_U pretty U c = Some (Inr u)) \<longrightarrow>
      (\<exists>vs r s'. bind_args pretty (params fn) (wrap_args args) = Some (Inr vs) \<and>
         body fn vs (state w) = (r, s') \<and>
         checked_cast_call pretty fn args w =
           Some (Inr \<lparr>stored_type = ret fn, result = r\<rparr>, \<lparr>calls = calls w + 1, state = s'\<rparr>))) \<and>
   checked_cast_call pretty my_write
       [(const_char_ptr, Obj a), (size_t, Num 142), (FILE_ptr, Obj f)] w0 =
     Some (Inl (checked_cast_throw (pretty char_t size_t)), w0)"
proof (intro conjI impI)
  assume run: "checked_cast_call pretty fn args w = Some (out, w')"
  show "calls w' \<le> calls w + 1"
    using run
    by (auto simp: checked_cast_call_def split: option.splits sum.splits prod.splits
          dest: calls_invoke)
  assume "\<exists>(U, c) \<in> set (zip (params fn) (wrap_args args)).
            \<exists>e. operator_U pretty U c = Some (Inl e)"
  moreover from run obtain x where x: "bind_args pretty (params fn) (wrap_args args) = Some x"
    by (auto simp: checked_cast_call_def split: option.splits)
  ultimately obtain e where "x = Inl e" by (blast dest: bind_args_failure)
  with run x show "\<exists>e. out = Inl e" and "w' = w"
    by (auto simp: checked_cast_call_def)
next
  assume "length (params fn) = length args \<and>
    (\<forall>(U, c) \<in> set (zip (params fn) (wrap_args args)).
        \<exists>u. operator_U pretty U c = Some (Inr u))"
  then have "length (params fn) = length (wrap_args args)"
    and "\<forall>(U, c) \<in> set (zip (params fn) (wrap_args args)).
        \<exists>u. operator_U pretty U c = Some (Inr u)"
    by (simp_all add: wrap_args_def)
  then obtain vs where vs: "bind_args pretty (params fn) (wrap_args args) = Some (Inr vs)"
    by (blast dest: bind_args_all)
  obtain r s' where b: "body fn vs (state w) = (r, s')" by (cases "body fn vs (state w)")
  with vs have "checked_cast_call pretty fn args w =
      Some (Inr \<lparr>stored_type = ret fn, result = r\<rparr>, \<lparr>calls = calls w + 1, state = s'\<rparr>)"
    by (simp add: checked_cast_call_def invoke_def)
  with vs b show "\<exists>vs r s'. bind_args pretty (params fn) (wrap_args args) = Some (Inr vs) \<and>
         body fn vs (state w) = (r, s') \<and>
         checked_cast_call pretty fn args w =
           Some (Inr \<lparr>stored_type = ret fn, result = r\<rparr>, \<lparr>calls = calls w + 1, state = s'\<rparr>)"
    by blast
next
  show "checked_cast_call pretty my_write
       [(const_char_ptr, Obj a), (size_t, Num 142), (FILE_ptr, Obj f)] w0 =
     Some (Inl (checked_cast_throw (pretty char_t size_t)), w0)"
    by (simp add: checked_cast_call_def my_write_def wrap_args_def operator_U_def
          checked_cast_def checked_cast_type_def const_char_ptr_def const_void_ptr_def
          size_t_def char_t_def FILE_ptr_def wrap_signed_def wrap_unsigned_def)
qed

theorem invocation_discipline_witness:
  "checked_cast_call gcc_pretty_function my_write
       [(const_char_ptr, Obj 4096), (size_t, Num 100), (FILE_ptr, Obj 1)] \<lparr>calls = 0, state = ()\<rparr> =
     Some (Inr \<lparr>stored_type = char_t, result = Num 100\<rparr>, \<lparr>calls = 1, state = ()\<rparr>) \<and>
   checked_cast_call gcc_pretty_function my_write
       [(const_char_ptr, Obj 4096), (size_t, Num 142), (FILE_ptr, Obj 1)] \<lparr>calls = 0, state = ()\<rparr> =
     Some (Inl (checked_cast_throw (gcc_pretty_function char_t size_t)), \<lparr>calls = 0, state = ()\<rparr>)"
  using invocation_discipline [of gcc_pretty_function my_write
      "[(const_char_ptr, Obj 4096), (size_t, Num 100), (FILE_ptr, Obj 1)]"
      "\<lparr>calls = 0, state = ()\<rparr>" _ _ 4096 1 "\<lparr>calls = 0, state = ()\<rparr>"]
  by (simp add: checked_cast_call_def my_write_def wrap_args_def operator_U_def invoke_def
        checked_cast_def checked_cast_type_def const_char_ptr_def const_void_ptr_def
        size_t_def char_t_def FILE_ptr_def wrap_signed_def wrap_unsigned_def)

text \<open>
  Claim C9 (comparison without conversion): the container's \<^verbatim>\<open>operator==\<close> is the
  comparison \<^verbatim>\<open>_result == other\<close> of the stored value itself, a \<^verbatim>\<open>bool\<close> with no
  conversion and so no error, and \<^verbatim>\<open>operator!=\<close> is its negation.
\<close>

theorem comparison_without_conversion:
  "operator_eq eq c u = eq (result c) u \<and> operator_ne eq c u = (\<not> operator_eq eq c u)"
  by (simp add: operator_eq_def operator_ne_def)

theorem comparison_without_conversion_witness:
  "operator_eq (=) \<lparr>stored_type = size_t, result = Num 142\<rparr> (Num 142) \<and>
   \<not> operator_ne (=) \<lparr>stored_type = size_t, result = Num 142\<rparr> (Num 142)"
  using comparison_without_conversion [of "(=)" "\<lparr>stored_type = size_t, result = Num 142\<rparr>" "Num 142"]
  by simp

text \<open>
  Claim C10 (widening safety): when the range of \<open>Target\<close> contains every value of
  \<open>Source\<close>, converting a \<open>Source\<close> value never raises, returns the same number, and casting
  the result back to \<open>Source\<close> gives the value again.
\<close>

theorem widening_safety:
  assumes "in_range kS i" and "\<forall>x. in_range kS x \<longrightarrow> in_range kT x"
  shows "checked_cast pretty (Integral tn kT) (Integral sn kS) (Num i) = Some (Inr (Num i)) \<and>
         static_cast (Integral sn kS) (Integral tn kT) (Num i) = Some (Num i)"
proof -
  from assms have "in_range kT i" by blast
  then have t: "convert_int kT i = i" by (rule convert_int_id)
  from assms(1) have s: "convert_int kS i = i" by (rule convert_int_id)
  show ?thesis by (simp add: checked_cast_def t s)
qed

theorem widening_safety_witness:
  "in_range (Signed_rep 8) (- 128) \<and>
   checked_cast gcc_pretty_function (Integral ''int'' (Signed_rep 32))
     (Integral ''signed char'' (Signed_rep 8)) (Num (- 128)) = Some (Inr (Num (- 128))) \<and>
   static_cast (Integral ''signed char'' (Signed_rep 8)) (Integral ''int'' (Signed_rep 32))
     (Num (- 128)) = Some (Num (- 128))"
proof -
  have v: "in_range (Signed_rep 8) (- 128)" by simp
  have sub: "\<forall>x. in_range (Signed_rep 8) x \<longrightarrow> in_range (Signed_rep 32) x" by simp
  from widening_safety [OF v sub, of gcc_pretty_function "''int''" "''signed char''"] v
  show ?thesis by blast
qed

end
